theory Spec2Isabelle
  imports Complex_Main
begin

section \<open>Shared JavaScript values\<close>

text \<open>
  A JavaScript string is modelled as a \<^typ>\<open>string\<close>: a list of code units in the
  range U+0000..U+00FF. A thrown value is a \<open>js_error\<close>; a function that can throw
  returns \<open>js_error + 'a\<close> with \<open>Inl\<close> for the thrown value.
\<close>

datatype js_error =
    ApiError string string   \<comment> \<open>an error object \<open>e\<close> with \<open>e.error.type\<close> (first field) and a message\<close>
  | JsError string           \<comment> \<open>\<open>new Error(msg)\<close>: it has no \<open>.error\<close> field\<close>
  | TypeError string         \<comment> \<open>a property read on \<open>undefined\<close>\<close>

datatype jsval = JUndefined | JNumber real | JString string

datatype ParticipantRole = USER | ASSISTANT

text \<open>
  The elements of \<open>ConversationMessage.content\<close> (typed \<open>any[]\<close> in the source), in the
  shapes this code builds: an object \<open>{text: t}\<close> (\<open>t\<close> absent is \<open>None\<close>), a bare
  string, and \<open>undefined\<close>.
\<close>

datatype content_item = TextItem "string option" | StringItem string | UndefinedItem

text \<open>\<open>Array.prototype.join\<close> on an array of strings.\<close>

fun join :: "string \<Rightarrow> string list \<Rightarrow> string" where
  "join sep [] = []"
| "join sep [x] = x"
| "join sep (x # y # ys) = x @ sep @ join sep (y # ys)"

text \<open>\<open>String.prototype.split\<close> with a one-character separator: \<open>"".split(" ")\<close> is \<open>[""]\<close>.\<close>

fun split_acc :: "char \<Rightarrow> string \<Rightarrow> string \<Rightarrow> string list" where
  "split_acc sep cur [] = [cur]"
| "split_acc sep cur (c # cs) =
     (if c = sep then cur # split_acc sep [] cs else split_acc sep (cur @ [c]) cs)"

definition js_split :: "string \<Rightarrow> char \<Rightarrow> string list" where
  "js_split s sep = split_acc sep [] s"

text \<open>\<open>String.prototype.indexOf\<close>: the first position where \<open>pat\<close> starts, or \<open>-1\<close>.\<close>

fun indexOf_from :: "nat \<Rightarrow> string \<Rightarrow> string \<Rightarrow> int" where
  "indexOf_from i [] pat = (if pat = [] then int i else - 1)"
| "indexOf_from i (c # cs) pat =
     (if take (length pat) (c # cs) = pat then int i else indexOf_from (Suc i) cs pat)"

definition indexOf :: "string \<Rightarrow> string \<Rightarrow> int" where
  "indexOf s pat = indexOf_from 0 s pat"

text \<open>\<open>Buffer.byteLength(s, "utf8")\<close>: a code unit below U+0080 is one byte, one in
  U+0080..U+00FF is two.\<close>

definition utf8_bytes :: "char \<Rightarrow> nat" where
  "utf8_bytes c = (if (of_char c :: nat) < 128 then 1 else 2)"

definition byteLength :: "string \<Rightarrow> nat" where
  "byteLength s = sum_list (map utf8_bytes s)"

section \<open>Prompt templates: \<open>replaceplaceholders\<close>\<close>

text \<open>
  \<open>BedrockLLMAgent\<close>, \<open>GrokAgent\<close> and \<open>PerplexityAgent\<close> each carry the same private method
  \<^verbatim>\<open>template.replace(/{{(\w+)}}/g, (match, key) => key in variables ? ... : match)\<close>.
  \<open>TemplateVariables\<close> maps a name to a string or an array of strings; the object is
  modelled as a map of its own properties.
\<close>

datatype template_value = StringValue string | ArrayValue "string list"

type_synonym TemplateVariables = "string \<rightharpoonup> template_value"

text \<open>The class \<open>\w\<close>: \<open>[A-Za-z0-9_]\<close>.\<close>

definition word_char :: "char \<Rightarrow> bool" where
  "word_char c =
     (let n = (of_char c :: nat)
      in (48 \<le> n \<and> n \<le> 57) \<or> (65 \<le> n \<and> n \<le> 90) \<or> n = 95 \<or> (97 \<le> n \<and> n \<le> 122))"

text \<open>
  A match of \<open>{{(\w+)}}\<close> at the start of \<open>s\<close>: the captured key and the text after the
  match. The greedy \<open>\w+\<close> takes the longest run of word characters; a shorter run is
  followed by a word character, never by \<open>}\<close>, so backtracking finds nothing more.
\<close>

definition match_placeholder :: "string \<Rightarrow> (string \<times> string) option" where
  "match_placeholder s =
     (if take 2 s = ''{{'' then
        (let key = takeWhile word_char (drop 2 s);
             rest = dropWhile word_char (drop 2 s)
         in if key \<noteq> [] \<and> take 2 rest = ''}}'' then Some (key, drop 2 rest) else None)
      else None)"

text \<open>The replacer callback \<open>(match, key) => ...\<close>.\<close>

definition replacer :: "TemplateVariables \<Rightarrow> string \<Rightarrow> string" where
  "replacer variables key =
     (case variables key of
        Some (ArrayValue xs) \<Rightarrow> join [CHR 0x0A] xs
      | Some (StringValue v) \<Rightarrow> v
      | None \<Rightarrow> ''{{'' @ key @ ''}}'')"

text \<open>
  The global replace scans left to right: at a match the replacement is emitted and the
  scan resumes after the match (replaced text is not scanned again); elsewhere one
  character is copied.
\<close>

function replaceplaceholders :: "string \<Rightarrow> TemplateVariables \<Rightarrow> string" where
  "replaceplaceholders [] variables = []"
| "replaceplaceholders (c # cs) variables =
     (case match_placeholder (c # cs) of
        Some (key, rest) \<Rightarrow> replacer variables key @ replaceplaceholders rest variables
      | None \<Rightarrow> c # replaceplaceholders cs variables)"
  by pat_completeness auto
termination
proof (relation "measure (\<lambda>(s, v). length s)")
  show "wf (measure (\<lambda>(s :: string, v :: TemplateVariables). length s))" by simp
next
  fix c :: char and cs :: string and variables :: TemplateVariables
    and x2 :: "string \<times> string" and key rest :: string
  assume a: "match_placeholder (c # cs) = Some x2" "(key, rest) = x2"
  let ?s = "c # cs"
  from a have r: "rest = drop 2 (dropWhile word_char (drop 2 ?s))"
    and t2: "take 2 (dropWhile word_char (drop 2 ?s)) = ''}}''"
    by (auto simp: match_placeholder_def Let_def split: if_splits)
  have "length (dropWhile word_char (drop 2 ?s)) \<le> length ?s"
    using length_dropWhile_le[of word_char "drop 2 ?s"] by simp
  moreover have "length (dropWhile word_char (drop 2 ?s)) \<ge> 2"
    using t2 by (metis length_take min.cobounded1 length_Cons list.size(3) One_nat_def Suc_1)
  ultimately have "length rest < length ?s" using r by simp
  then show "((rest, variables), c # cs, variables) \<in> measure (\<lambda>(s, v). length s)" by simp
next
  fix c :: char and cs :: string and variables :: TemplateVariables
  show "((cs, variables), c # cs, variables) \<in> measure (\<lambda>(s, v). length s)" by simp
qed

section \<open>\<open>LLMUtils.splitContent\<close>\<close>

text \<open>The constructor sets \<open>this.maxFieldSize = 3500\<close>.\<close>

definition maxFieldSize :: nat where
  "maxFieldSize = 3500"

text \<open>One turn of \<open>for (const word of words)\<close> on the pair \<open>(chunks, currentChunk)\<close>;
  \<open>substring(0, n)\<close> and \<open>substring(n)\<close> count code units.\<close>

fun splitContent_step :: "string list \<times> string \<Rightarrow> string \<Rightarrow> string list \<times> string" where
  "splitContent_step (chunks, currentChunk) word =
     (let testChunk = currentChunk @ (if currentChunk \<noteq> [] then '' '' else []) @ word
      in if byteLength testChunk > maxFieldSize then
           (if currentChunk \<noteq> [] then (chunks @ [currentChunk], word)
            else (chunks @ [take maxFieldSize word], drop maxFieldSize word))
         else (chunks, testChunk))"

definition splitContent :: "string \<Rightarrow> string list" where
  "splitContent content =
     (let (chunks, currentChunk) = foldl splitContent_step ([], []) (js_split content CHR '' '')
      in if currentChunk \<noteq> [] then chunks @ [currentChunk] else chunks)"

section \<open>Conversation data\<close>

datatype ContextType = channel_thread | user_dm

datatype MessageType = user | bot

text \<open>The metadata object stored with each vector of the Pinecone index (the fields
  \<open>storeMessage\<close> and \<open>createContextSummary\<close> write; an absent field is \<open>None\<close>).\<close>

record Metadata =
  contextId :: string
  contextType :: ContextType
  md_userId :: string
  md_channelId :: "string option"
  md_threadTs :: "string option"
  md_content :: "string option"
  messageType :: MessageType
  md_timestamp :: int
  messageIndex :: int
  isActive :: bool
  md_agentId :: "string option"
  md_sessionId :: "string option"
  md_type :: "string option"

record ConversationMessage =
  role :: ParticipantRole
  content :: "content_item list"
  timestamp :: "int option"
  metadata :: "Metadata option"

record ChatHistory =
  messages :: "ConversationMessage list"
  summary :: "string option"

text \<open>The \<open>obj\<close> pushed to \<open>modelStats\<close>: \<open>id\<close>, \<open>model\<close>, \<open>usage\<close> and \<open>from\<close>.\<close>

record ModelStat =
  stat_id :: string
  stat_model :: string
  stat_usage :: string
  stat_from :: string

text \<open>What an agent returns: a conversation message with \<open>modelStats\<close> and, for
  Perplexity, \<open>citations\<close>.\<close>

record AgentMessage = ConversationMessage +
  modelStats :: "ModelStat list"
  citations :: "string list option"

section \<open>Agents: \<open>GrokAgent\<close> and \<open>PerplexityAgent\<close>\<close>

text \<open>
  A chat completion as the agents read it: \<open>choices\<close> may be absent, and
  \<open>choices[0]?.message?.content\<close> is \<open>Some t\<close> exactly when it is a string.
  The request carries the model, the \<open>(role, content)\<close> messages, \<open>max_tokens\<close> and the
  \<open>stream\<close> flag (the sampling options are passed through and not modelled). The backend
  is a function from the request to what the call does: it throws (\<open>Inl\<close>) or returns.
\<close>

record Choice =
  message_content :: "string option"

record ChatCompletion =
  cc_id :: string
  cc_model :: string
  cc_usage :: string
  choices :: "Choice list option"

record ChatRequest =
  req_model :: string
  req_messages :: "(string \<times> string) list"
  req_max_tokens :: "nat option"
  req_stream :: bool

text \<open>\<open>GrokAgent.handleSingleResponse\<close>: the \<open>catch\<close> logs and rethrows.\<close>

definition GrokAgent_handleSingleResponse ::
  "(ChatRequest \<Rightarrow> js_error + ChatCompletion) \<Rightarrow> ChatRequest \<Rightarrow> js_error + AgentMessage" where
  "GrokAgent_handleSingleResponse client input =
     (let nonStreamingOptions = input\<lparr>req_stream := False\<rparr>
      in case client nonStreamingOptions of
           Inl error \<Rightarrow> Inl error
         | Inr chatCompletion \<Rightarrow>
             (case choices chatCompletion of
                None \<Rightarrow> Inl (JsError ''GROK Agent: No choices returned from GROK API'')
              | Some [] \<Rightarrow> Inl (JsError ''GROK Agent: No choices returned from GROK API'')
              | Some (c # cs) \<Rightarrow>
                  (case message_content c of
                     None \<Rightarrow> Inl (JsError ''GROK Agent: Unexpected response format from GROK API'')
                   | Some assistantMessage \<Rightarrow>
                       Inr \<lparr>role = ASSISTANT, content = [TextItem (Some assistantMessage)],
                            timestamp = None, metadata = None,
                            modelStats = [\<lparr>stat_id = cc_id chatCompletion,
                                           stat_model = cc_model chatCompletion,
                                           stat_usage = cc_usage chatCompletion,
                                           stat_from = ''agent-grok''\<rparr>],
                            citations = None\<rparr>)))"

text \<open>
  \<open>PerplexityAgent\<close>: the fields \<open>processRequest\<close> reads. The retriever, when set, maps
  the input text to the combined results or throws. The HTTP call (\<open>axios\<close>) throws or
  returns a response whose \<open>data\<close> may be absent.
\<close>

record PerplexityAgent =
  pa_model :: string
  pa_apiKey :: string
  pa_promptTemplate :: string
  pa_customVariables :: TemplateVariables
  pa_retriever :: "(string \<Rightarrow> js_error + string) option"

record PerplexityResp =
  pr_id :: string
  pr_model :: string
  pr_usage :: string
  pr_choices :: "Choice list option"
  pr_citations :: "string list option"

record PerplexityRequest =
  px_url :: string
  px_authorization :: string
  px_model :: string
  px_messages :: "(string \<times> string) list"

definition role_toLowerCase :: "ParticipantRole \<Rightarrow> string" where
  "role_toLowerCase r = (case r of USER \<Rightarrow> ''user'' | ASSISTANT \<Rightarrow> ''assistant'')"

text \<open>\<open>msg.content[0]?.text || ''\<close>.\<close>

definition first_text_or_empty :: "content_item list \<Rightarrow> string" where
  "first_text_or_empty c =
     (case c of TextItem (Some t) # _ \<Rightarrow> t | _ \<Rightarrow> [])"

text \<open>The body of the \<open>try\<close> block once \<open>axios\<close> has answered.\<close>

definition PerplexityAgent_try :: "js_error + PerplexityResp option \<Rightarrow> js_error + AgentMessage" where
  "PerplexityAgent_try retVal =
     (case retVal of
        Inl e \<Rightarrow> Inl e
      | Inr None \<Rightarrow> Inl (JsError ''Perplexity Agent: Unexpected response format from Perplexity API'')
      | Inr (Some perplexityResp) \<Rightarrow>
          (case pr_choices perplexityResp of
             None \<Rightarrow> Inl (TypeError ''Cannot read properties of undefined (reading length)'')
           | Some [] \<Rightarrow> Inl (JsError ''Perplexity Agent: Unexpected response format from Perplexity API'')
           | Some (c # cs) \<Rightarrow>
               (case message_content c of
                  None \<Rightarrow> Inl (JsError ''Perplexity Agent: Unexpected response format from Perplexity API'')
                | Some assistantMessage \<Rightarrow>
                    Inr \<lparr>role = ASSISTANT, content = [TextItem (Some assistantMessage)],
                         timestamp = None, metadata = None,
                         modelStats = [\<lparr>stat_id = pr_id perplexityResp,
                                        stat_model = pr_model perplexityResp,
                                        stat_usage = pr_usage perplexityResp,
                                        stat_from = ''agent-perplexity''\<rparr>],
                         citations = pr_citations perplexityResp\<rparr>)))"

text \<open>The message the \<open>catch\<close> block returns.\<close>

definition perplexity_error_message :: AgentMessage where
  "perplexity_error_message =
     \<lparr>role = ASSISTANT,
      content = [TextItem (Some ''An error occured while connecting to perplexity.'')],
      timestamp = None, metadata = None, modelStats = [], citations = Some []\<rparr>"

definition PerplexityAgent_processRequest ::
  "PerplexityAgent \<Rightarrow> (PerplexityRequest \<Rightarrow> js_error + PerplexityResp option) \<Rightarrow>
   string \<Rightarrow> string \<Rightarrow> string \<Rightarrow> ChatHistory \<Rightarrow> js_error + AgentMessage" where
  "PerplexityAgent_processRequest agent axios inputText userId sessionId chatHistory =
     (let systemPrompt0 = replaceplaceholders (pa_promptTemplate agent) (pa_customVariables agent);
          retrieved =
            (case pa_retriever agent of
               None \<Rightarrow> Inr systemPrompt0
             | Some retrieveAndCombineResults \<Rightarrow>
                 (case retrieveAndCombineResults inputText of
                    Inl e \<Rightarrow> Inl e
                  | Inr response \<Rightarrow>
                      Inr (systemPrompt0 @ [CHR 0x0A]
                           @ ''Here is the context to use to answer the user's question:''
                           @ [CHR 0x0A] @ response)))
      in case retrieved of
           Inl e \<Rightarrow> Inl e
         | Inr systemPrompt1 \<Rightarrow>
             (let systemPrompt =
                    (case summary chatHistory of
                       None \<Rightarrow> systemPrompt1
                     | Some s \<Rightarrow>
                         if s = [] then systemPrompt1
                         else systemPrompt1 @ [CHR 0x0A]
                              @ ''Here is a summary of the old conversation that you should account for before answering:''
                              @ [CHR 0x0A] @ '' '' @ s);
                  msgs = [(''system'', systemPrompt)]
                         @ map (\<lambda>msg. (role_toLowerCase (role msg), first_text_or_empty (content msg)))
                               (messages chatHistory)
                         @ [(''user'', inputText)];
                  requestOptions = \<lparr>px_url = ''https://api.perplexity.ai/chat/completions'',
                                    px_authorization = ''Bearer '' @ pa_apiKey agent,
                                    px_model = pa_model agent,
                                    px_messages = msgs\<rparr>
              in case PerplexityAgent_try (axios requestOptions) of
                   Inr m \<Rightarrow> Inr m
                 | Inl e \<Rightarrow> Inr perplexity_error_message))"

text \<open>
  A malformed completion, as both agents test it: no \<open>choices\<close>, an empty \<open>choices\<close>, or a
  first choice whose message content is not a string.
\<close>

definition malformed_choices :: "Choice list option \<Rightarrow> bool" where
  "malformed_choices cs =
     (case cs of None \<Rightarrow> True | Some [] \<Rightarrow> True | Some (c # _) \<Rightarrow> message_content c = None)"

text \<open>The Perplexity call failed: \<open>axios\<close> threw, or the response has no data or a
  malformed completion.\<close>

definition perplexity_call_failed :: "js_error + PerplexityResp option \<Rightarrow> bool" where
  "perplexity_call_failed retVal =
     (case retVal of
        Inl e \<Rightarrow> True
      | Inr None \<Rightarrow> True
      | Inr (Some r) \<Rightarrow> malformed_choices (pr_choices r))"

section \<open>Classifiers\<close>

text \<open>
  \<open>AgentSquadConfig\<close> and its \<open>DEFAULT_CONFIG\<close>, as the orchestrator documentation lists
  them. The classifiers and the storage classes below take no configuration object.
\<close>

record AgentSquadConfig =
  LOG_AGENT_CHAT :: bool
  LOG_CLASSIFIER_CHAT :: bool
  LOG_CLASSIFIER_RAW_OUTPUT :: bool
  LOG_CLASSIFIER_OUTPUT :: bool
  LOG_EXECUTION_TIMES :: bool
  MAX_RETRIES :: nat
  USE_DEFAULT_AGENT_IF_NONE_IDENTIFIED :: bool
  NO_SELECTED_AGENT_MESSAGE :: string
  MAX_MESSAGE_PAIRS_PER_AGENT :: nat

definition DEFAULT_CONFIG :: AgentSquadConfig where
  "DEFAULT_CONFIG =
     \<lparr>LOG_AGENT_CHAT = False, LOG_CLASSIFIER_CHAT = False, LOG_CLASSIFIER_RAW_OUTPUT = False,
      LOG_CLASSIFIER_OUTPUT = False, LOG_EXECUTION_TIMES = False, MAX_RETRIES = 3,
      USE_DEFAULT_AGENT_IF_NONE_IDENTIFIED = True,
      NO_SELECTED_AGENT_MESSAGE =
        ''I'm sorry, I couldn't determine how to handle your request. Could you please rephrase it?'',
      MAX_MESSAGE_PAIRS_PER_AGENT = 100\<rparr>"

record Agent =
  agent_id :: string
  agent_name :: string
  agent_description :: string
  s3details :: "string option"

type_synonym Registry = "string \<rightharpoonup> Agent"

text \<open>
  Modelled from the spec: \<open>Classifier.getAgentById\<close>. The base class \<open>Classifier\<close> is not
  among the sources; the spec describes the lookup as an \<open>agentId \<rightarrow> AgentDescriptor\<close>
  lookup in the live registry that yields "no agent" for an identifier that matches no
  registered agent.
\<close>

definition getAgentById :: "Registry \<Rightarrow> string \<Rightarrow> Agent option" where
  "getAgentById agents agentId = agents agentId"

text \<open>One entry of the tool input (\<open>userinput\<close>, \<open>selected_agent\<close>, \<open>confidence\<close>), and the
  tool input of the multi-agent tool: its \<open>agents\<close> array and whatever stands under the
  top-level key \<open>confidence\<close> (\<open>JUndefined\<close> when the key is absent, as the tool's schema has
  it).\<close>

record ToolInput =
  ti_userinput :: string
  ti_selected_agent :: string
  ti_confidence :: jsval

record AgentsToolInput =
  ti_agents :: "ToolInput list option"
  top_confidence :: jsval

record 'n ClassifierResult =
  selectedAgent :: "Agent option"
  confidence :: 'n
  classifier_modelStats :: "ModelStat list"

datatype 'i AnthropicContent = text_block string | tool_use 'i

record 'i AnthropicResponse =
  ar_id :: string
  ar_model :: string
  ar_usage :: string
  ar_content :: "'i AnthropicContent list"

text \<open>\<open>response.content.find(c => c.type === "tool_use")\<close>, then its \<open>.input\<close>.\<close>

fun find_tool_use :: "'i AnthropicContent list \<Rightarrow> 'i option" where
  "find_tool_use [] = None"
| "find_tool_use (tool_use i # cs) = Some i"
| "find_tool_use (text_block t # cs) = find_tool_use cs"

text \<open>\<open>error.error.type\<close> in the \<open>catch\<close> block: \<open>None\<close> when the thrown value has no
  \<open>.error\<close>, in which case reading \<open>.type\<close> throws a \<open>TypeError\<close>.\<close>

definition error_error_type :: "js_error \<Rightarrow> string option" where
  "error_error_type e = (case e of ApiError t m \<Rightarrow> Some t | _ \<Rightarrow> None)"

text \<open>
  The loop \<open>while (retry)\<close> of both \<open>AnthropicClassifier.processRequest\<close> variants.
  \<open>body n st\<close> is the \<open>try\<close> block on its \<open>n\<close>-th execution (its result or the value it
  throws, and the state it leaves); the loop returns the outcome, the state, the
  arguments of the \<open>delay\<close> calls in order (milliseconds) and the final \<open>executionCount\<close>.
  The statement after the loop is never reached: every path of the body returns, throws
  or sets \<open>retry\<close>.
\<close>

function processRequest_while ::
  "(nat \<Rightarrow> 's \<Rightarrow> (js_error + 'r) \<times> 's) \<Rightarrow> 's \<Rightarrow> nat \<Rightarrow> nat list
   \<Rightarrow> (js_error + 'r) \<times> 's \<times> nat list \<times> nat" where
  "processRequest_while body st executionCount0 delays0 =
     (let executionCount = executionCount0 + 1
      in case body executionCount st of
           (Inr r, st') \<Rightarrow> (Inr r, st', delays0, executionCount)
         | (Inl error, st') \<Rightarrow>
             (case error_error_type error of
                None \<Rightarrow> (Inl (TypeError ''Cannot read properties of undefined (reading type)''),
                          st', delays0, executionCount)
              | Some t \<Rightarrow>
                  if t = ''overloaded_error'' then
                    (if executionCount < 3 then
                       processRequest_while body st' executionCount (delays0 @ [executionCount * 500])
                     else (Inl error, st', delays0, executionCount))
                  else (Inl error, st', delays0, executionCount)))"
  by pat_completeness auto
termination
  by (relation "measure (\<lambda>(body, st, executionCount0, delays0). 3 - executionCount0)") auto

declare processRequest_while.simps [simp del]

text \<open>The \<open>try\<close> block of the single-result \<open>AnthropicClassifier.processRequest\<close>, given
  what \<open>client.messages.create\<close> did. \<open>isClassifierToolInput\<close> (from \<open>utils/helpers\<close>) and
  \<open>parseFloat\<close> are parameters.\<close>

definition AnthropicClassifier_try ::
  "(ToolInput \<Rightarrow> bool) \<Rightarrow> (jsval \<Rightarrow> 'n) \<Rightarrow> Registry
   \<Rightarrow> js_error + ToolInput AnthropicResponse \<Rightarrow> js_error + 'n ClassifierResult" where
  "AnthropicClassifier_try isClassifierToolInput parseFloat agents created =
     (case created of
        Inl e \<Rightarrow> Inl e
      | Inr response \<Rightarrow>
          (case find_tool_use (ar_content response) of
             None \<Rightarrow> Inl (JsError ''Classifier Error: No tool use found in the response'')
           | Some toolUse_input \<Rightarrow>
               if \<not> isClassifierToolInput toolUse_input then
                 Inl (JsError ''Classifier Error: Tool input does not match expected structure'')
               else
                 Inr \<lparr>selectedAgent = getAgentById agents (ti_selected_agent toolUse_input),
                      confidence = parseFloat (ti_confidence toolUse_input),
                      classifier_modelStats =
                        [\<lparr>stat_id = ar_id response, stat_model = ar_model response,
                          stat_usage = ar_usage response, stat_from = ''anthropic_classifier''\<rparr>]\<rparr>))"

text \<open>\<open>client n\<close> is what the \<open>n\<close>-th call of \<open>client.messages.create\<close> does.\<close>

definition AnthropicClassifier_processRequest ::
  "(ToolInput \<Rightarrow> bool) \<Rightarrow> (jsval \<Rightarrow> 'n) \<Rightarrow> Registry
   \<Rightarrow> (nat \<Rightarrow> js_error + ToolInput AnthropicResponse)
   \<Rightarrow> (js_error + 'n ClassifierResult) \<times> unit \<times> nat list \<times> nat" where
  "AnthropicClassifier_processRequest isClassifierToolInput parseFloat agents client =
     processRequest_while
       (\<lambda>n u. (AnthropicClassifier_try isClassifierToolInput parseFloat agents (client n), u))
       () 0 []"

text \<open>\<open>fetchDescription\<close> of \<open>utils/s3Utils\<close>; \<open>s3\<close> stands for the \<open>GetObject\<close> call and the
  reading of \<open>description\<close> from its JSON body.\<close>

definition fetchDescription ::
  "(string \<Rightarrow> string \<Rightarrow> js_error + string) \<Rightarrow> string \<Rightarrow> string \<Rightarrow> js_error + string" where
  "fetchDescription s3 bucket key =
     (if bucket = [] \<or> key = [] then Inl (JsError ''Invalid S3 path format. Need bucket and key'')
      else s3 bucket key)"

text \<open>\<open>const [S3Bucket, fileId] = s3details.split("##")\<close>, for an \<open>s3details\<close> that holds
  \<open>##\<close>.\<close>

definition split_s3details :: "string \<Rightarrow> string \<times> string" where
  "split_s3details d =
     (let i = nat (indexOf d ''##'');
          rest = drop (i + 2) d;
          j = indexOf rest ''##''
      in (take i d, if j < 0 then rest else take (nat j) rest))"

text \<open>
  The lookup of one chosen agent in the multi-agent variants, with the refresh of its
  description from S3. The assignment \<open>selectedAgent.description = description\<close> changes the
  registered agent, so the registry is returned as well.
\<close>

definition select_agent ::
  "(string \<Rightarrow> string \<Rightarrow> js_error + string) \<Rightarrow> Registry \<Rightarrow> string
   \<Rightarrow> (js_error + Agent option) \<times> Registry" where
  "select_agent s3 agents agentId =
     (case getAgentById agents agentId of
        None \<Rightarrow> (Inr None, agents)
      | Some found \<Rightarrow>
          (case s3details found of
             None \<Rightarrow> (Inr (Some found), agents)
           | Some d \<Rightarrow>
               if d \<noteq> [] \<and> indexOf d ''##'' > 0 then
                 (case fetchDescription s3 (fst (split_s3details d)) (snd (split_s3details d)) of
                    Inl e \<Rightarrow> (Inl e, agents)
                  | Inr description \<Rightarrow>
                      (Inr (Some (found\<lparr>agent_description := description\<rparr>)),
                       agents(agentId \<mapsto> found\<lparr>agent_description := description\<rparr>)))
               else (Inr (Some found), agents)))"

text \<open>The loop \<open>for (const agent of input['agents'])\<close> of the multi-result
  \<open>AnthropicClassifier.processRequest\<close>.\<close>

fun anthropic_agents_loop ::
  "(ToolInput \<Rightarrow> bool) \<Rightarrow> (jsval \<Rightarrow> 'n) \<Rightarrow> (string \<Rightarrow> string \<Rightarrow> js_error + string)
   \<Rightarrow> ModelStat list \<Rightarrow> Registry \<Rightarrow> ToolInput list \<Rightarrow> 'n ClassifierResult list
   \<Rightarrow> (js_error + 'n ClassifierResult list) \<times> Registry" where
  "anthropic_agents_loop isClassifierToolInput parseFloat s3 stats agents [] classifiedResults =
     (Inr classifiedResults, agents)"
| "anthropic_agents_loop isClassifierToolInput parseFloat s3 stats agents (agent # rest) classifiedResults =
     (if \<not> isClassifierToolInput agent then
        (Inl (JsError ''Classifier Error: Tool input does not match expected structure''), agents)
      else
        (case select_agent s3 agents (ti_selected_agent agent) of
           (Inl e, agents') \<Rightarrow> (Inl e, agents')
         | (Inr chosen, agents') \<Rightarrow>
             anthropic_agents_loop isClassifierToolInput parseFloat s3 stats agents' rest
               (classifiedResults @
                [\<lparr>selectedAgent = chosen,
                  confidence = parseFloat (ti_confidence agent),
                  classifier_modelStats = stats\<rparr>])))"

definition AnthropicClassifier_try_multi ::
  "(ToolInput \<Rightarrow> bool) \<Rightarrow> (jsval \<Rightarrow> 'n) \<Rightarrow> (string \<Rightarrow> string \<Rightarrow> js_error + string)
   \<Rightarrow> js_error + AgentsToolInput AnthropicResponse \<Rightarrow> Registry
   \<Rightarrow> (js_error + 'n ClassifierResult list) \<times> Registry" where
  "AnthropicClassifier_try_multi isClassifierToolInput parseFloat s3 created agents =
     (case created of
        Inl e \<Rightarrow> (Inl e, agents)
      | Inr response \<Rightarrow>
          (case find_tool_use (ar_content response) of
             None \<Rightarrow> (Inl (JsError ''Classifier Error: No tool use found in the response''), agents)
           | Some toolUse_input \<Rightarrow>
               (case ti_agents toolUse_input of
                  None \<Rightarrow> (Inr [], agents)
                | Some entries \<Rightarrow>
                    anthropic_agents_loop isClassifierToolInput parseFloat s3
                      [\<lparr>stat_id = ar_id response, stat_model = ar_model response,
                        stat_usage = ar_usage response, stat_from = ''anthropic_classifier''\<rparr>]
                      agents entries [])))"

definition AnthropicClassifier_processRequest_multi ::
  "(ToolInput \<Rightarrow> bool) \<Rightarrow> (jsval \<Rightarrow> 'n) \<Rightarrow> (string \<Rightarrow> string \<Rightarrow> js_error + string)
   \<Rightarrow> Registry \<Rightarrow> (nat \<Rightarrow> js_error + AgentsToolInput AnthropicResponse)
   \<Rightarrow> (js_error + 'n ClassifierResult list) \<times> Registry \<times> nat list \<times> nat" where
  "AnthropicClassifier_processRequest_multi isClassifierToolInput parseFloat s3 agents client =
     processRequest_while
       (\<lambda>n. AnthropicClassifier_try_multi isClassifierToolInput parseFloat s3 (client n))
       agents 0 []"

text \<open>\<open>OpenAIClassifier.processRequest\<close>: one call, no retry; the \<open>catch\<close> logs and
  rethrows. \<open>tool_call\<close> is \<open>response.choices[0]?.message?.tool_calls?.[0]\<close>; \<open>JSON_parse\<close> is
  a parameter. The loop stores \<open>parseFloat(toolInput.confidence)\<close>, read from the parsed
  tool input and not from the entry \<open>agent\<close>.\<close>

record ToolCall =
  function_name :: string
  arguments :: string

record OpenAIResponse =
  or_id :: string
  or_model :: string
  or_usage :: string
  tool_call :: "ToolCall option"

fun openai_agents_loop ::
  "(ToolInput \<Rightarrow> bool) \<Rightarrow> (jsval \<Rightarrow> 'n) \<Rightarrow> (string \<Rightarrow> string \<Rightarrow> js_error + string)
   \<Rightarrow> ModelStat list \<Rightarrow> AgentsToolInput \<Rightarrow> Registry \<Rightarrow> ToolInput list \<Rightarrow> 'n ClassifierResult list
   \<Rightarrow> (js_error + 'n ClassifierResult list) \<times> Registry" where
  "openai_agents_loop isClassifierToolInput parseFloat s3 stats toolInput agents [] classifiedResults =
     (Inr classifiedResults, agents)"
| "openai_agents_loop isClassifierToolInput parseFloat s3 stats toolInput agents (agent # rest) classifiedResults =
     (if \<not> isClassifierToolInput agent then
        (Inl (JsError ''Tool input does not match expected structure.''), agents)
      else
        (case select_agent s3 agents (ti_selected_agent agent) of
           (Inl e, agents') \<Rightarrow> (Inl e, agents')
         | (Inr chosen, agents') \<Rightarrow>
             openai_agents_loop isClassifierToolInput parseFloat s3 stats toolInput agents' rest
               (classifiedResults @
                [\<lparr>selectedAgent = chosen,
                  confidence = parseFloat (top_confidence toolInput),
                  classifier_modelStats = stats\<rparr>])))"

definition OpenAIClassifier_processRequest ::
  "(ToolInput \<Rightarrow> bool) \<Rightarrow> (jsval \<Rightarrow> 'n) \<Rightarrow> (string \<Rightarrow> string \<Rightarrow> js_error + string)
   \<Rightarrow> (string \<Rightarrow> js_error + AgentsToolInput) \<Rightarrow> Registry \<Rightarrow> js_error + OpenAIResponse
   \<Rightarrow> (js_error + 'n ClassifierResult list) \<times> Registry" where
  "OpenAIClassifier_processRequest isClassifierToolInput parseFloat s3 JSON_parse agents created =
     (case created of
        Inl e \<Rightarrow> (Inl e, agents)
      | Inr response \<Rightarrow>
          (case tool_call response of
             None \<Rightarrow> (Inl (JsError ''No valid tool call found in the response''), agents)
           | Some toolCall \<Rightarrow>
               if function_name toolCall \<noteq> ''analyzePrompt'' then
                 (Inl (JsError ''No valid tool call found in the response''), agents)
               else
                 (case JSON_parse (arguments toolCall) of
                    Inl e \<Rightarrow> (Inl e, agents)
                  | Inr toolInput \<Rightarrow>
                      (case ti_agents toolInput of
                         None \<Rightarrow> (Inr [], agents)
                       | Some entries \<Rightarrow>
                           openai_agents_loop isClassifierToolInput parseFloat s3
                             [\<lparr>stat_id = or_id response, stat_model = or_model response,
                               stat_usage = or_usage response, stat_from = ''openai_classifier''\<rparr>]
                             toolInput agents entries []))))"

section \<open>\<open>PineconeStorage\<close>\<close>

text \<open>
  The index is the list of its records, one per id. A record's vector is the embedding of
  a text or the zero vector \<open>Array(VECTOR_DIMENSION).fill(0)\<close>; the embedding service and the
  index are taken to answer (their failures are not modelled). What the environment
  decides is gathered in \<open>Env\<close>: the similarity score the index gives a stored vector for
  a query vector, the clock (\<open>Date.now()\<close>), the identifiers \<open>uuidv4()\<close> returns, and the text
  \<open>LLMUtils.generateSummary\<close> returns (it always returns a string: its \<open>catch\<close> yields a
  fallback text).
\<close>

datatype vector = ZeroVector | Embedding "string option"

record PineconeRecord =
  rec_id :: string
  rec_values :: vector
  rec_metadata :: Metadata

text \<open>A match of a query, as the code keeps it: \<open>{id: match.id, metadata: match.metadata}\<close>.\<close>

record Match =
  match_id :: string
  match_metadata :: Metadata

type_synonym Index = "PineconeRecord list"

record Env =
  env_similarity :: "vector \<Rightarrow> vector \<Rightarrow> int"
  env_now :: int
  env_uuid :: string
  env_summary_now :: int
  env_summary_uuid :: string
  env_generateSummary :: "string \<Rightarrow> string"

text \<open>\<open>index.upsert([r])\<close>: the record with the id of \<open>r\<close> is replaced, or \<open>r\<close> is added.\<close>

definition upsert :: "Index \<Rightarrow> PineconeRecord \<Rightarrow> Index" where
  "upsert idx r =
     (if rec_id r \<in> rec_id ` set idx
      then map (\<lambda>x. if rec_id x = rec_id r then r else x) idx
      else idx @ [r])"

text \<open>\<open>index.fetch([id])\<close>, then \<open>result.records?.[id]\<close>.\<close>

definition index_fetch :: "Index \<Rightarrow> string \<Rightarrow> PineconeRecord option" where
  "index_fetch idx i = find (\<lambda>r. rec_id r = i) idx"

text \<open>\<open>index.query({vector, topK, filter, includeMetadata: true})\<close>: the \<open>topK\<close> records
  that pass the filter with the highest similarity to \<open>vector\<close>, best first (records of
  equal score in the order of the index).\<close>

definition index_query :: "Env \<Rightarrow> Index \<Rightarrow> vector \<Rightarrow> nat \<Rightarrow> (Metadata \<Rightarrow> bool) \<Rightarrow> Match list" where
  "index_query env idx v topK flt =
     map (\<lambda>r. \<lparr>match_id = rec_id r, match_metadata = rec_metadata r\<rparr>)
         (take topK (sort_key (\<lambda>r. - env_similarity env v (rec_values r))
                              (filter (\<lambda>r. flt (rec_metadata r)) idx)))"

record PineconeChatMessage =
  pm_id :: string
  pm_userId :: string
  pm_channelId :: string
  pm_threadTs :: string
  pm_content :: "string option"
  pm_timestamp :: int
  pm_messageType :: MessageType
  pm_agentId :: "string option"
  pm_sessionId :: "string option"
  pm_isDM :: bool



definition parseSessionId :: "string \<Rightarrow> string \<times> string" where
  "parseSessionId sessionId =
     (case js_split sessionId CHR ''#'' of
        [p0, p1] \<Rightarrow> (p0, p1)
      | _ \<Rightarrow> (sessionId, sessionId))"

definition getContextType :: "PineconeChatMessage \<Rightarrow> ContextType" where
  "getContextType message = (if \<not> pm_isDM message then channel_thread else user_dm)"

definition generateContextId :: "PineconeChatMessage \<Rightarrow> string" where
  "generateContextId message =
     (if pm_isDM message then ''dm_'' @ pm_userId message
      else ''channel_'' @ pm_channelId message @ ''_thread_'' @ pm_threadTs message)"

definition formContextId :: "string \<Rightarrow> string \<Rightarrow> string \<Rightarrow> string" where
  "formContextId userId channelId threadTs =
     (if userId = channelId then ''dm_'' @ userId
      else ''channel_'' @ channelId @ ''_thread_'' @ threadTs)"

text \<open>\<open>uuidv4().replace(/-/g, '').slice(0, 8)\<close> after the context id: every call draws a
  new identifier.\<close>

definition generatePineconeId :: "Env \<Rightarrow> string \<Rightarrow> string \<Rightarrow> string \<Rightarrow> string" where
  "generatePineconeId env channelId threadTs userId =
     (let uniquePart = take 8 (filter (\<lambda>c. c \<noteq> CHR ''-'') (env_uuid env))
      in formContextId userId channelId threadTs @ ''_'' @ uniquePart)"

text \<open>The filter \<open>{contextId: {$eq: contextId}, isActive: {$eq: true}}\<close>.\<close>

definition active_in :: "string \<Rightarrow> Metadata \<Rightarrow> bool" where
  "active_in ctx md = (contextId md = ctx \<and> isActive md)"

definition getRecentMessages :: "Env \<Rightarrow> Index \<Rightarrow> string \<Rightarrow> nat \<Rightarrow> Match list" where
  "getRecentMessages env idx ctx limit = index_query env idx ZeroVector limit (active_in ctx)"

definition deactivateOldMessages :: "Env \<Rightarrow> Index \<Rightarrow> string \<Rightarrow> nat \<Rightarrow> Index" where
  "deactivateOldMessages env idx ctx keepRecent =
     (let found = getRecentMessages env idx ctx 1000
      in if length found \<le> keepRecent then idx
         else fold (\<lambda>record i.
                      upsert i \<lparr>rec_id = match_id record, rec_values = ZeroVector,
                                rec_metadata = (match_metadata record)\<lparr>isActive := False\<rparr>\<rparr>)
                   (drop keepRecent found) idx)"

definition messageType_string :: "MessageType \<Rightarrow> string" where
  "messageType_string t = (case t of user \<Rightarrow> ''user'' | bot \<Rightarrow> ''bot'')"

definition createContextSummary :: "Env \<Rightarrow> Index \<Rightarrow> string \<Rightarrow> Index" where
  "createContextSummary env idx ctx =
     (let found = getRecentMessages env idx ctx 50
      in if length found < 10 then idx
         else
           (let conversationText =
                  join [CHR 0x0A]
                    (map (\<lambda>msg. messageType_string (messageType (match_metadata msg)) @ '': ''
                                 @ (case md_content (match_metadata msg) of
                                      Some c \<Rightarrow> c | None \<Rightarrow> ''undefined''))
                         (sort_key (\<lambda>msg. md_timestamp (match_metadata msg)) found));
                summaryText = env_generateSummary env conversationText
            in upsert idx
                 \<lparr>rec_id = env_summary_uuid env,
                  rec_values = Embedding (Some summaryText),
                  rec_metadata =
                    \<lparr>contextId = ctx,
                     contextType = (if take 8 ctx = ''channel_'' then channel_thread else user_dm),
                     md_userId = ''system'', md_channelId = None, md_threadTs = None,
                     md_content = Some summaryText, messageType = bot,
                     md_timestamp = env_summary_now env, messageIndex = - 1, isActive = True,
                     md_agentId = None, md_sessionId = None, md_type = Some ''summary''\<rparr>\<rparr>))"

definition storeMessage :: "Env \<Rightarrow> Index \<Rightarrow> PineconeChatMessage \<Rightarrow> Index" where
  "storeMessage env idx message =
     (let ctx = generateContextId message;
          ctxType = getContextType message;
          embedding = Embedding (pm_content message);
          recents = getRecentMessages env idx ctx 1000;
          msgIndex = int (length recents);
          idx1 = upsert idx
                   \<lparr>rec_id = pm_id message, rec_values = embedding,
                    rec_metadata =
                      \<lparr>contextId = ctx, contextType = ctxType, md_userId = pm_userId message,
                       md_channelId = Some (pm_channelId message),
                       md_threadTs = Some (pm_threadTs message),
                       md_content = pm_content message, messageType = pm_messageType message,
                       md_timestamp = pm_timestamp message, messageIndex = msgIndex,
                       isActive = True, md_agentId = pm_agentId message,
                       md_sessionId = pm_sessionId message, md_type = None\<rparr>\<rparr>;
          maxActiveMessages = (if ctxType = channel_thread then 100 else 200);
          idx2 = deactivateOldMessages env idx1 ctx maxActiveMessages
      in if msgIndex > 0 \<and> msgIndex mod 50 = 0 then createContextSummary env idx2 ctx else idx2)"

text \<open>\<open>newMessage.content[0].text\<close>: reading \<open>.text\<close> of \<open>undefined\<close> throws; a bare string
  has no \<open>text\<close>.\<close>

definition first_content_text :: "content_item list \<Rightarrow> js_error + string option" where
  "first_content_text c =
     (case c of
        [] \<Rightarrow> Inl (TypeError ''Cannot read properties of undefined (reading text)'')
      | UndefinedItem # _ \<Rightarrow> Inl (TypeError ''Cannot read properties of undefined (reading text)'')
      | TextItem t # _ \<Rightarrow> Inr t
      | StringItem s # _ \<Rightarrow> Inr None)"

text \<open>\<open>saveChatMessage\<close> returns \<open>[newMessage]\<close>; the index after the call is returned with
  it.\<close>

definition saveChatMessage ::
  "Env \<Rightarrow> Index \<Rightarrow> string \<Rightarrow> string \<Rightarrow> string \<Rightarrow> ConversationMessage
   \<Rightarrow> js_error + (ConversationMessage list \<times> Index)" where
  "saveChatMessage env idx userId sessionId agentId newMessage =
     (case parseSessionId sessionId of
        (channelId, threadTs) \<Rightarrow>
          (case first_content_text (content newMessage) of
             Inl e \<Rightarrow> Inl e
           | Inr text0 \<Rightarrow>
               Inr ([newMessage],
                    storeMessage env idx
                      \<lparr>pm_id = generatePineconeId env channelId threadTs userId,
                       pm_userId = userId, pm_channelId = channelId, pm_threadTs = threadTs,
                       pm_content = text0, pm_timestamp = env_now env,
                       pm_messageType = (if role newMessage = USER then user else bot),
                       pm_agentId = Some agentId, pm_sessionId = Some sessionId,
                       pm_isDM = (userId = sessionId)\<rparr>)))"

text \<open>\<open>fetchChat\<close> takes no \<open>agentId\<close>; the id it fetches is a newly generated one.\<close>

definition fetchChat :: "Env \<Rightarrow> Index \<Rightarrow> string \<Rightarrow> string \<Rightarrow> ConversationMessage list" where
  "fetchChat env idx userId sessionId =
     (case parseSessionId sessionId of
        (channelId, threadTs) \<Rightarrow>
          (case index_fetch idx (generatePineconeId env channelId threadTs userId) of
             None \<Rightarrow> []
           | Some record \<Rightarrow>
               [\<lparr>role = (if messageType (rec_metadata record) = user then USER else ASSISTANT),
                 content = [case md_content (rec_metadata record) of
                              Some c \<Rightarrow> StringItem c | None \<Rightarrow> UndefinedItem],
                 timestamp = None, metadata = None\<rparr>]))"









section \<open>Example data\<close>



section \<open>Properties of \<open>replaceplaceholders\<close>\<close>












section \<open>Properties of \<open>LLMUtils.splitContent\<close>\<close>

lemma split_acc_replicate:
  "c \<noteq> sep \<Longrightarrow> split_acc sep cur (replicate n c) = [cur @ replicate n c]"
proof (induction n arbitrary: cur)
  case 0
  show ?case by simp
next
  case (Suc n)
  have "split_acc sep cur (replicate (Suc n) c) = split_acc sep (cur @ [c]) (replicate n c)"
    using Suc.prems by simp
  also have "\<dots> = [(cur @ [c]) @ replicate n c]"
    using Suc.IH[OF Suc.prems] .
  finally show ?case by simp
qed

lemma byteLength_append: "byteLength (a @ b) = byteLength a + byteLength b"
  by (simp add: byteLength_def)

lemma byteLength_replicate_x: "byteLength (replicate n (CHR ''x'')) = n"
  by (induction n) (simp_all add: byteLength_def utf8_bytes_def)

lemma byteLength_a: "byteLength ''a'' = 1"
  by (simp add: byteLength_def utf8_bytes_def)

lemma js_split_a_xs:
  "js_split (''a '' @ replicate n (CHR ''x'')) CHR '' '' = [''a'', replicate n (CHR ''x'')]"
  using split_acc_replicate[of "CHR ''x''" "CHR '' ''" "[]" n]
  by (simp add: js_split_def)

lemma replicate_4000_nonempty: "replicate 4000 (CHR ''x'') \<noteq> []"
  by simp

text \<open>
  Claim C10, at the content \<open>"a " + "x".repeat(4000)\<close>: the second word is longer than
  \<open>maxFieldSize\<close> and arrives while \<open>currentChunk\<close> is \<open>"a"\<close>, so it becomes the current
  chunk whole and is pushed as a chunk of 4000 bytes.
\<close>

theorem splitContent_oversized_chunk:
  "splitContent (''a '' @ replicate 4000 (CHR ''x'')) = [''a'', replicate 4000 (CHR ''x'')]
   \<and> byteLength (replicate 4000 (CHR ''x'')) = 4000 \<and> maxFieldSize = 3500"
proof -
  let ?w = "replicate 4000 (CHR ''x'')"
  have s1: "splitContent_step ([], []) ''a'' = ([], ''a'')"
    by (simp add: byteLength_a maxFieldSize_def)
  have "byteLength (''a'' @ '' '' @ ?w) = 4002"
    unfolding byteLength_append byteLength_replicate_x by (simp add: byteLength_def utf8_bytes_def)
  then have s2: "splitContent_step ([], ''a'') ?w = ([''a''], ?w)"
    by (simp add: maxFieldSize_def)
  have "foldl splitContent_step ([], []) [''a'', ?w] = ([''a''], ?w)"
    by (simp only: foldl.simps s1 s2)
  then have "splitContent (''a '' @ ?w) = [''a'', ?w]"
    unfolding splitContent_def js_split_a_xs using replicate_4000_nonempty
    by (simp)
  then show ?thesis
    by (simp only: byteLength_replicate_x maxFieldSize_def simp_thms)
qed

section \<open>Agents: what happens when the backend fails\<close>

lemma PerplexityAgent_try_failed:
  "perplexity_call_failed retVal \<Longrightarrow> \<exists>e. PerplexityAgent_try retVal = Inl e"
  by (auto simp: perplexity_call_failed_def PerplexityAgent_try_def malformed_choices_def
           split: sum.splits option.splits list.splits)

text \<open>
  Claim C5, as the agents implement it. \<open>GrokAgent.handleSingleResponse\<close> propagates every
  failure: an error thrown by the backend is rethrown as it is, and a malformed completion
  raises an error. \<open>PerplexityAgent.processRequest\<close> does not: once the retriever (if any)
  has answered, every failure of the HTTP call or of the response's shape ends in the
  fixed assistant message of the \<open>catch\<close> block.
\<close>

theorem agent_backend_failure:
  "(\<forall>e. client (input\<lparr>req_stream := False\<rparr>) = Inl e
          \<longrightarrow> GrokAgent_handleSingleResponse client input = Inl e)
   \<and> (\<forall>cc. client (input\<lparr>req_stream := False\<rparr>) = Inr cc \<and> malformed_choices (choices cc)
          \<longrightarrow> (\<exists>e. GrokAgent_handleSingleResponse client input = Inl e))
   \<and> ((pa_retriever agent = None \<or> (\<exists>f r. pa_retriever agent = Some f \<and> f inputText = Inr r))
        \<and> (\<forall>req. perplexity_call_failed (axios req))
          \<longrightarrow> PerplexityAgent_processRequest agent axios inputText userId sessionId chatHistory
              = Inr perplexity_error_message)"
proof (intro conjI allI impI)
  fix e
  assume "client (input\<lparr>req_stream := False\<rparr>) = Inl e"
  then show "GrokAgent_handleSingleResponse client input = Inl e"
    by (simp add: GrokAgent_handleSingleResponse_def)
next
  fix cc
  assume "client (input\<lparr>req_stream := False\<rparr>) = Inr cc \<and> malformed_choices (choices cc)"
  then show "\<exists>e. GrokAgent_handleSingleResponse client input = Inl e"
    by (auto simp: GrokAgent_handleSingleResponse_def malformed_choices_def
             split: option.splits list.splits)
next
  assume a: "(pa_retriever agent = None \<or> (\<exists>f r. pa_retriever agent = Some f \<and> f inputText = Inr r))
        \<and> (\<forall>req. perplexity_call_failed (axios req))"
  then have f: "\<And>req. \<exists>e. PerplexityAgent_try (axios req) = Inl e"
    using PerplexityAgent_try_failed by blast
  have g: "\<And>req. (case PerplexityAgent_try (axios req) of
                      Inr m \<Rightarrow> Inr m | Inl e \<Rightarrow> Inr perplexity_error_message)
                   = (Inr perplexity_error_message :: js_error + AgentMessage)"
  proof -
    fix req
    from f obtain e where "PerplexityAgent_try (axios req) = Inl e" by blast
    then show "(case PerplexityAgent_try (axios req) of
                  Inr m \<Rightarrow> Inr m | Inl e \<Rightarrow> Inr perplexity_error_message)
               = (Inr perplexity_error_message :: js_error + AgentMessage)"
      by simp
  qed
  from a have "pa_retriever agent = None \<or> (\<exists>f r. pa_retriever agent = Some f \<and> f inputText = Inr r)"
    by blast
  then show "PerplexityAgent_processRequest agent axios inputText userId sessionId chatHistory
              = Inr perplexity_error_message"
  proof
    assume "pa_retriever agent = None"
    then show ?thesis
      unfolding PerplexityAgent_processRequest_def Let_def
      by (simp add: g)
  next
    assume "\<exists>f r. pa_retriever agent = Some f \<and> f inputText = Inr r"
    then obtain f0 r where "pa_retriever agent = Some f0" "f0 inputText = Inr r" by blast
    then show ?thesis
      unfolding PerplexityAgent_processRequest_def Let_def
      by (simp add: g)
  qed
qed

theorem agent_backend_failure_witness:
  "GrokAgent_handleSingleResponse (\<lambda>r. Inl (ApiError ''server_error'' ''unavailable''))
     \<lparr>req_model = ''grok-2'', req_messages = [(''user'', ''hi'')], req_max_tokens = Some 4096, req_stream = False\<rparr>
     = Inl (ApiError ''server_error'' ''unavailable'')
   \<and> (\<exists>e. GrokAgent_handleSingleResponse
          (\<lambda>r. Inr \<lparr>cc_id = ''1'', cc_model = ''grok-2'', cc_usage = ''0'', choices = Some []\<rparr>)
          \<lparr>req_model = ''grok-2'', req_messages = [(''user'', ''hi'')], req_max_tokens = Some 4096, req_stream = False\<rparr>
          = Inl e)
   \<and> PerplexityAgent_processRequest
        \<lparr>pa_model = ''sonar-pro'', pa_apiKey = ''k'', pa_promptTemplate = ''You are {{ROLE}}.'',
         pa_customVariables = [''ROLE'' \<mapsto> StringValue ''a guide''], pa_retriever = None\<rparr>
        (\<lambda>r. Inr (Some \<lparr>pr_id = ''1'', pr_model = ''sonar-pro'', pr_usage = ''0'',
                         pr_choices = Some [\<lparr>message_content = None\<rparr>], pr_citations = None\<rparr>))
        ''hi'' ''u1'' ''s1'' \<lparr>messages = [], summary = None\<rparr>
      = Inr perplexity_error_message"
  using agent_backend_failure
    [of "\<lambda>r. Inl (ApiError ''server_error'' ''unavailable'')"
        "\<lparr>req_model = ''grok-2'', req_messages = [(''user'', ''hi'')], req_max_tokens = Some 4096, req_stream = False\<rparr>"
        "\<lparr>pa_model = ''sonar-pro'', pa_apiKey = ''k'', pa_promptTemplate = ''You are {{ROLE}}.'',
         pa_customVariables = [''ROLE'' \<mapsto> StringValue ''a guide''], pa_retriever = None\<rparr>"
        "''hi''"
        "\<lambda>r. Inr (Some \<lparr>pr_id = ''1'', pr_model = ''sonar-pro'', pr_usage = ''0'',
                         pr_choices = Some [\<lparr>message_content = None\<rparr>], pr_citations = None\<rparr>)"
        "''u1''" "''s1''" "\<lparr>messages = [], summary = None\<rparr>"]
    agent_backend_failure
    [of "\<lambda>r. Inr \<lparr>cc_id = ''1'', cc_model = ''grok-2'', cc_usage = ''0'', choices = Some []\<rparr>"
        "\<lparr>req_model = ''grok-2'', req_messages = [(''user'', ''hi'')], req_max_tokens = Some 4096, req_stream = False\<rparr>"
        "\<lparr>pa_model = ''sonar-pro'', pa_apiKey = ''k'', pa_promptTemplate = ''You are {{ROLE}}.'',
         pa_customVariables = [''ROLE'' \<mapsto> StringValue ''a guide''], pa_retriever = None\<rparr>"
        "''hi''"
        "\<lambda>r. Inr (Some \<lparr>pr_id = ''1'', pr_model = ''sonar-pro'', pr_usage = ''0'',
                         pr_choices = Some [\<lparr>message_content = None\<rparr>], pr_citations = None\<rparr>)"
        "''u1''" "''s1''" "\<lparr>messages = [], summary = None\<rparr>"]
  by (simp add: perplexity_call_failed_def malformed_choices_def)

text \<open>
  Claim C5 as stated fails for \<open>PerplexityAgent\<close>: when the HTTP call throws, the caller
  receives a normal assistant message, not an error.
\<close>

theorem perplexity_swallows_failure:
  "PerplexityAgent_processRequest
     \<lparr>pa_model = ''sonar-pro'', pa_apiKey = ''k'', pa_promptTemplate = ''You are a guide.'',
      pa_customVariables = Map.empty, pa_retriever = None\<rparr>
     (\<lambda>r. Inl (JsError ''Network Error''))
     ''hi'' ''u1'' ''s1'' \<lparr>messages = [], summary = None\<rparr>
   = Inr \<lparr>role = ASSISTANT,
          content = [TextItem (Some ''An error occured while connecting to perplexity.'')],
          timestamp = None, metadata = None, modelStats = [], citations = Some []\<rparr>"
  by (simp add: PerplexityAgent_processRequest_def PerplexityAgent_try_def
                perplexity_error_message_def Let_def)

section \<open>Classifiers: retry on overload\<close>

lemma processRequest_while_overloaded:
  assumes b: "\<And>n st. body n st = (Inl (err n), st)"
    and o: "\<And>n. error_error_type (err n) = Some ''overloaded_error''"
  shows "processRequest_while body st 0 [] = (Inl (err 3), st, [500, 1000], 3)"
proof -
  have 1: "processRequest_while body st 0 [] = processRequest_while body st 1 [500]"
    by (subst processRequest_while.simps) (simp add: b o)
  have 2: "processRequest_while body st 1 [500] = processRequest_while body st 2 [500, 1000]"
    by (subst processRequest_while.simps) (simp add: b o numeral_2_eq_2)
  have 3: "processRequest_while body st 2 [500, 1000] = (Inl (err 3), st, [500, 1000], 3)"
    by (subst processRequest_while.simps) (simp add: b o)
  show ?thesis by (simp only: 1 2 3)
qed

text \<open>
  Claim C1, as the code has it. When every call of the backend throws an error whose
  \<open>.error.type\<close> is \<open>overloaded_error\<close>, both variants of
  \<open>AnthropicClassifier.processRequest\<close> call the backend exactly three times (the literal
  bound \<open>executionCount < 3\<close>), wait 500 ms after the first failure and 1000 ms after the
  second (\<open>executionCount * 500\<close>), and then rethrow the third error; no result is returned
  and the registry is left as it was.
\<close>

theorem classifier_overloaded_retry:
  assumes "\<forall>n. client n = Inl (ApiError ''overloaded_error'' (msg n))"
    and "\<forall>n. client_multi n = Inl (ApiError ''overloaded_error'' (msg_multi n))"
  shows "AnthropicClassifier_processRequest isClassifierToolInput parseFloat agents client
           = (Inl (ApiError ''overloaded_error'' (msg 3)), (), [500, 1000], 3)
       \<and> AnthropicClassifier_processRequest_multi isClassifierToolInput parseFloat s3 agents client_multi
           = (Inl (ApiError ''overloaded_error'' (msg_multi 3)), agents, [500, 1000], 3)"
proof
  show "AnthropicClassifier_processRequest isClassifierToolInput parseFloat agents client
           = (Inl (ApiError ''overloaded_error'' (msg 3)), (), [500, 1000], 3)"
    unfolding AnthropicClassifier_processRequest_def
    by (rule processRequest_while_overloaded)
       (simp_all add: assms(1) AnthropicClassifier_try_def error_error_type_def)
  show "AnthropicClassifier_processRequest_multi isClassifierToolInput parseFloat s3 agents client_multi
           = (Inl (ApiError ''overloaded_error'' (msg_multi 3)), agents, [500, 1000], 3)"
    unfolding AnthropicClassifier_processRequest_multi_def
    by (rule processRequest_while_overloaded)
       (simp_all add: assms(2) AnthropicClassifier_try_multi_def error_error_type_def)
qed

theorem classifier_overloaded_retry_witness:
  "AnthropicClassifier_processRequest (\<lambda>i. True) (\<lambda>v. v) Map.empty
       (\<lambda>n. Inl (ApiError ''overloaded_error'' ''Overloaded''))
     = (Inl (ApiError ''overloaded_error'' ''Overloaded''), (), [500, 1000], 3)
   \<and> AnthropicClassifier_processRequest_multi (\<lambda>i. True) (\<lambda>v. v) (\<lambda>b k. Inr ''d'') Map.empty
       (\<lambda>n. Inl (ApiError ''overloaded_error'' ''Overloaded''))
     = (Inl (ApiError ''overloaded_error'' ''Overloaded''), Map.empty, [500, 1000], 3)"
  using classifier_overloaded_retry
    [of "\<lambda>n. Inl (ApiError ''overloaded_error'' ''Overloaded'')" "\<lambda>n. ''Overloaded''"
        "\<lambda>n. Inl (ApiError ''overloaded_error'' ''Overloaded'')" "\<lambda>n. ''Overloaded''"
        "\<lambda>i. True" "\<lambda>v. v" Map.empty "\<lambda>b k. Inr ''d''"]
  by simp

text \<open>
  Claim C1 as stated fails: with the backend always overloaded the classifier waits twice
  (two retries, three calls), which is not \<open>MAX_RETRIES\<close> retries for the default
  \<open>MAX_RETRIES = 3\<close>; and the number of calls stays three when \<open>MAX_RETRIES\<close> is configured
  as 5.
\<close>

theorem classifier_retry_not_MAX_RETRIES:
  "(case AnthropicClassifier_processRequest (\<lambda>i. True) (\<lambda>v. v) Map.empty
           (\<lambda>n. Inl (ApiError ''overloaded_error'' ''Overloaded'')) of
      (out, u, delays, executionCount) \<Rightarrow>
        length delays = 2 \<and> executionCount = 3
        \<and> length delays \<noteq> MAX_RETRIES DEFAULT_CONFIG
        \<and> executionCount \<noteq> MAX_RETRIES (DEFAULT_CONFIG\<lparr>MAX_RETRIES := 5\<rparr>))"
proof -
  have "AnthropicClassifier_processRequest (\<lambda>i. True) (\<lambda>v. v) Map.empty
           (\<lambda>n. Inl (ApiError ''overloaded_error'' ''Overloaded''))
        = (Inl (ApiError ''overloaded_error'' ''Overloaded''), (), [500, 1000], 3)"
    unfolding AnthropicClassifier_processRequest_def
    by (rule processRequest_while_overloaded)
       (simp_all add: AnthropicClassifier_try_def error_error_type_def)
  then show ?thesis by (simp add: DEFAULT_CONFIG_def)
qed

section \<open>Classifiers: the results they build\<close>






text \<open>
  Claim C9, at an \<open>OpenAIClassifier\<close> response that follows the tool's schema: the parsed
  tool input is \<open>{agents: [{userinput, selected_agent: "tech", confidence: 0.92}]}\<close>, with no
  top-level \<open>confidence\<close>. The result for \<open>tech\<close> carries \<open>parseFloat(undefined)\<close>, whatever
  confidence the model reported for that agent.
\<close>

theorem openai_confidence_not_per_agent:
  "OpenAIClassifier_processRequest (\<lambda>i. True) parseFloat s3
     (\<lambda>s. Inr \<lparr>ti_agents = Some [\<lparr>ti_userinput = ''my laptop won't boot'',
                                   ti_selected_agent = ''tech'', ti_confidence = JNumber 0.92\<rparr>],
                top_confidence = JUndefined\<rparr>)
     [''tech'' \<mapsto> \<lparr>agent_id = ''tech'', agent_name = ''Tech Agent'',
                    agent_description = ''Hardware'', s3details = None\<rparr>]
     (Inr \<lparr>or_id = ''c1'', or_model = ''gpt'', or_usage = ''u'',
           tool_call = Some \<lparr>function_name = ''analyzePrompt'', arguments = ''{}''\<rparr>\<rparr>)
   = (Inr [\<lparr>selectedAgent = Some \<lparr>agent_id = ''tech'', agent_name = ''Tech Agent'',
                                   agent_description = ''Hardware'', s3details = None\<rparr>,
            confidence = parseFloat JUndefined,
            classifier_modelStats = [\<lparr>stat_id = ''c1'', stat_model = ''gpt'', stat_usage = ''u'',
                                      stat_from = ''openai_classifier''\<rparr>]\<rparr>],
      [''tech'' \<mapsto> \<lparr>agent_id = ''tech'', agent_name = ''Tech Agent'',
                     agent_description = ''Hardware'', s3details = None\<rparr>])"
  by (simp add: OpenAIClassifier_processRequest_def select_agent_def getAgentById_def)

section \<open>\<open>PineconeStorage\<close>: how many records stay active\<close>






















section \<open>\<open>PineconeStorage\<close>: \<open>fetchChat\<close>\<close>





text \<open>
  Claim C3, at one save followed by one fetch of the same conversation on an empty
  index: the save stores the record under an id ending in the first eight hex digits of
  one \<open>uuidv4()\<close>, the fetch looks up an id ending in those of another, finds nothing and
  returns the empty history. Were the two identifiers equal, the fetched message would
  carry the bare string \<open>"hello"\<close> as its content item, not \<open>{text: "hello"}\<close>.
\<close>

theorem save_then_fetch_finds_nothing:
  "(case saveChatMessage
           \<lparr>env_similarity = (\<lambda>q v. 0), env_now = 1000, env_uuid = ''0a1b2c3d-0000'',
            env_summary_now = 1001, env_summary_uuid = ''s1'', env_generateSummary = (\<lambda>t. ''summary'')\<rparr>
           [] ''U1'' ''C1#T1'' ''tech''
           \<lparr>role = USER, content = [TextItem (Some ''hello'')], timestamp = None, metadata = None\<rparr> of
      Inl e \<Rightarrow> False
    | Inr (returned, idx) \<Rightarrow>
        fetchChat \<lparr>env_similarity = (\<lambda>q v. 0), env_now = 1002, env_uuid = ''7e6f5a4b-0000'',
                   env_summary_now = 1003, env_summary_uuid = ''s2'', env_generateSummary = (\<lambda>t. ''summary'')\<rparr>
                  idx ''U1'' ''C1#T1'' = []
        \<and> fetchChat \<lparr>env_similarity = (\<lambda>q v. 0), env_now = 1002, env_uuid = ''0a1b2c3d-0000'',
                   env_summary_now = 1003, env_summary_uuid = ''s2'', env_generateSummary = (\<lambda>t. ''summary'')\<rparr>
                  idx ''U1'' ''C1#T1''
          = [\<lparr>role = USER, content = [StringItem ''hello''], timestamp = None, metadata = None\<rparr>])"
  by code_simp

section \<open>\<open>PineconeStorage\<close>: \<open>getRelevantContext\<close> and \<open>fetchAllChats\<close>\<close>










end
